theory Spec2Isabelle
  imports Complex_Main
begin

section \<open>Data model (app/models.py)\<close>

text \<open>
  \<^verbatim>\<open>Asset\<close> and \<^verbatim>\<open>Insight\<close> are pydantic models. The field \<^verbatim>\<open>status\<close> has the
  closed type \<^verbatim>\<open>Literal["active", "defaulted", "paid"]\<close>, an enumeration of three tags.
  The fields \<^verbatim>\<open>id\<close> and \<^verbatim>\<open>value\<close> are written \<open>asset_id\<close>, \<open>insight_id\<close> and
  \<open>insight_value\<close>, since \<open>id\<close> is the identity function of HOL and \<open>value\<close> is a
  command of Isabelle.

  Numbers. Python's \<^verbatim>\<open>float\<close> is modelled by the real numbers: \<open>+\<close> and \<open>/\<close> are
  exact, and \<^verbatim>\<open>round(x, n)\<close> rounds the exact value to \<open>n\<close> decimals, ties to the even
  neighbour. The error of binary rounding, infinities and NaN are outside this model.
  A \<^verbatim>\<open>date\<close> is modelled by its day number (an integer), and adding
  \<^verbatim>\<open>timedelta(days=k)\<close> adds \<open>k\<close> to it; the ends of the calendar are not modelled.
\<close>

datatype status = Active | Defaulted | Paid

record Asset =
  asset_id :: string
  nominal_value :: real
  status :: status
  due_date :: int

record Insight =
  insight_id :: string
  name :: string
  insight_value :: real

datatype error = ZeroDivisionError | IndexError


section \<open>Python's arithmetic\<close>

text \<open>Rounding a number to the nearest integer, a tie going to the even neighbour.\<close>

definition round_half_even :: "real \<Rightarrow> int" where
  "round_half_even x =
     (let f = \<lfloor>x\<rfloor>; d = x - of_int f
      in if d < 1 / 2 then f
         else if 1 / 2 < d then f + 1
         else if even f then f else f + 1)"

text \<open>\<^verbatim>\<open>round(x, ndigits)\<close> for \<open>ndigits \<ge> 0\<close>.\<close>

definition py_round :: "real \<Rightarrow> nat \<Rightarrow> real" where
  "py_round x ndigits = of_int (round_half_even (x * 10 ^ ndigits)) / 10 ^ ndigits"

text \<open>\<^verbatim>\<open>sum(xs)\<close>: the items are added from left to right, starting from 0.\<close>

definition py_sum :: "real list \<Rightarrow> real" where
  "py_sum xs = foldl (+) 0 xs"

text \<open>\<^verbatim>\<open>a / b\<close> raises \<^verbatim>\<open>ZeroDivisionError\<close> when \<open>b\<close> is zero.\<close>

definition truediv :: "real \<Rightarrow> real \<Rightarrow> error + real" where
  "truediv a b = (if b = 0 then Inl ZeroDivisionError else Inr (a / b))"


section \<open>calculate_insights (app/services.py)\<close>

text \<open>
  The conditional expressions \<^verbatim>\<open>e if assets else 0\<close> and \<^verbatim>\<open>e if total_value else 0\<close>
  test that the list is not empty and that the number is not zero.
\<close>

definition calculate_insights :: "Asset list \<Rightarrow> error + Insight list" where
  "calculate_insights assets =
     (let total_value = py_sum (map nominal_value assets);
          active_assets = filter (\<lambda>a. status a = Active) assets;
          defaulted_assets = filter (\<lambda>a. status a = Defaulted) assets;
          paid_assets = filter (\<lambda>a. status a = Paid) assets
      in case (if assets \<noteq> []
               then truediv (of_nat (length defaulted_assets)) (of_nat (length assets))
               else Inr 0) of
           Inl e \<Rightarrow> Inl e
         | Inr default_rate \<Rightarrow>
             (let outstanding_debt = py_sum (map nominal_value active_assets)
              in case (if total_value \<noteq> 0
                       then truediv (py_sum (map nominal_value paid_assets)) total_value
                       else Inr 0) of
                   Inl e \<Rightarrow> Inl e
                 | Inr collection_rate \<Rightarrow>
                     Inr [\<lparr>insight_id = ''insight-001'', name = ''total_portfolio_value'',
                            insight_value = py_round total_value 2\<rparr>,
                          \<lparr>insight_id = ''insight-002'', name = ''default_rate'',
                            insight_value = py_round default_rate 4\<rparr>,
                          \<lparr>insight_id = ''insight-003'', name = ''outstanding_debt'',
                            insight_value = py_round outstanding_debt 2\<rparr>,
                          \<lparr>insight_id = ''insight-004'', name = ''collection_rate'',
                            insight_value = py_round collection_rate 4\<rparr>]))"

text \<open>The list of four insights with the given values, in the order of the source.\<close>

definition four_insights :: "real \<Rightarrow> real \<Rightarrow> real \<Rightarrow> real \<Rightarrow> Insight list" where
  "four_insights t d od c =
     [\<lparr>insight_id = ''insight-001'', name = ''total_portfolio_value'', insight_value = t\<rparr>,
      \<lparr>insight_id = ''insight-002'', name = ''default_rate'', insight_value = d\<rparr>,
      \<lparr>insight_id = ''insight-003'', name = ''outstanding_debt'', insight_value = od\<rparr>,
      \<lparr>insight_id = ''insight-004'', name = ''collection_rate'', insight_value = c\<rparr>]"


section \<open>The module random and the clock\<close>

text \<open>
  \<^verbatim>\<open>get_assets\<close> calls four functions of the module \<^verbatim>\<open>random\<close> of Python's standard
  library, which act on one hidden generator state. The module is not part of the
  repository, so it is a parameter of the model: a record of the four functions over a
  type \<open>'g\<close> of generator states, each taking the state and returning the next one.
  \<^verbatim>\<open>choices\<close> returns the list of the elements it has drawn (one element here, as
  \<^verbatim>\<open>k\<close> is left at 1).
\<close>

record 'g random_module =
  seed :: "int \<Rightarrow> 'g \<Rightarrow> 'g"
  choices :: "status list \<Rightarrow> real list \<Rightarrow> 'g \<Rightarrow> status list \<times> 'g"
  randint :: "int \<Rightarrow> int \<Rightarrow> 'g \<Rightarrow> int \<times> 'g"
  uniform :: "real \<Rightarrow> real \<Rightarrow> 'g \<Rightarrow> real \<times> 'g"

text \<open>
  What the documentation of the module promises of these functions: \<^verbatim>\<open>choices\<close> returns a
  list of \<^verbatim>\<open>k\<close> elements of the population, \<^verbatim>\<open>randint(a, b)\<close> and \<^verbatim>\<open>uniform(a, b)\<close> return
  a number \<open>N\<close> with \<open>a \<le> N \<le> b\<close>, and \<^verbatim>\<open>seed(a)\<close> replaces the state by one that is
  computed from \<open>a\<close> alone.
\<close>

definition choices_contract :: "'g random_module \<Rightarrow> bool" where
  "choices_contract R \<longleftrightarrow>
     (\<forall>population weights g. population \<noteq> [] \<longrightarrow>
        (\<exists>x \<in> set population. fst (choices R population weights g) = [x]))"

definition randint_contract :: "'g random_module \<Rightarrow> bool" where
  "randint_contract R \<longleftrightarrow>
     (\<forall>a b g. a \<le> b \<longrightarrow> a \<le> fst (randint R a b g) \<and> fst (randint R a b g) \<le> b)"

definition uniform_contract :: "'g random_module \<Rightarrow> bool" where
  "uniform_contract R \<longleftrightarrow>
     (\<forall>a b g. a \<le> b \<longrightarrow> a \<le> fst (uniform R a b g) \<and> fst (uniform R a b g) \<le> b)"

definition seed_contract :: "'g random_module \<Rightarrow> bool" where
  "seed_contract R \<longleftrightarrow> (\<forall>a g g'. seed R a g = seed R a g')"

text \<open>
  A small generator that keeps these promises, on which the theorems below are
  instantiated: its state is a counter.
\<close>

definition sample_random :: "nat random_module" where
  "sample_random =
     \<lparr>seed = (\<lambda>a g. nat \<bar>a\<bar>),
      choices = (\<lambda>population weights g. ([population ! (g mod length population)], Suc g)),
      randint = (\<lambda>a b g. (a + int g mod (b - a + 1), Suc g)),
      uniform = (\<lambda>a b g. (a + (b - a) * (real (g mod 8) / 8), g + 2))\<rparr>"


section \<open>get_assets (app/services.py)\<close>

text \<open>The format \<^verbatim>\<open>03d\<close> of a natural number: its decimal digits, filled with zeros on the
  left up to three characters.\<close>

definition digit_char :: "nat \<Rightarrow> char" where
  "digit_char d = ''0123456789'' ! d"

function str_nat :: "nat \<Rightarrow> string" where
  "str_nat n = (if n < 10 then [digit_char n] else str_nat (n div 10) @ [digit_char (n mod 10)])"
  by pat_completeness auto
termination
  by (relation "measure id") auto

definition format_03d :: "nat \<Rightarrow> string" where
  "format_03d n = (let s = str_nat n in replicate (3 - length s) CHR ''0'' @ s)"

definition statuses :: "status list" where
  "statuses = [Active, Defaulted, Paid]"

text \<open>
  The body of \<^verbatim>\<open>for i in range(20)\<close>, run over the list of the remaining indices. The
  generator state \<open>g\<close> is threaded through the three draws in the order of the source:
  \<^verbatim>\<open>choices\<close>, \<^verbatim>\<open>randint\<close>, \<^verbatim>\<open>uniform\<close>. \<open>today i\<close> is the day \<^verbatim>\<open>date.today()\<close> returns in
  iteration \<open>i\<close>. Reading element 0 of an empty list raises \<^verbatim>\<open>IndexError\<close>. The local
  variables \<^verbatim>\<open>status\<close> and \<^verbatim>\<open>due_date\<close> are written \<open>st\<close> and \<open>due\<close>, as the fields of the
  record have these names.
\<close>

fun get_assets_loop ::
  "'g random_module \<Rightarrow> (nat \<Rightarrow> int) \<Rightarrow> nat list \<Rightarrow> Asset list \<Rightarrow> 'g \<Rightarrow> error + Asset list \<times> 'g"
where
  "get_assets_loop R today [] assets g = Inr (assets, g)"
| "get_assets_loop R today (i # is) assets g =
     (case choices R statuses [6 / 10, 2 / 10, 2 / 10] g of
        (drawn, g1) \<Rightarrow>
          (case drawn of
             [] \<Rightarrow> Inl IndexError
           | st # _ \<Rightarrow>
               (case randint R (- 90) 180 g1 of
                  (days, g2) \<Rightarrow>
                    (let due = today i + days
                     in case uniform R 1000 50000 g2 of
                          (u, g3) \<Rightarrow>
                            get_assets_loop R today is
                              (assets @ [\<lparr>asset_id = ''asset-'' @ format_03d (i + 1),
                                          nominal_value = py_round u 2,
                                          status = st,
                                          due_date = due\<rparr>])
                              g3))))"

text \<open>\<^verbatim>\<open>get_assets\<close> takes the state the generator is in when the call starts and returns
  the list together with the state it leaves behind.\<close>

definition get_assets ::
  "'g random_module \<Rightarrow> (nat \<Rightarrow> int) \<Rightarrow> 'g \<Rightarrow> error + Asset list \<times> 'g" where
  "get_assets R today g = get_assets_loop R today [0..<20] [] (seed R 42 g)"

text \<open>An asset that iteration \<open>i\<close> of the loop can append: the id of the iteration, a
  status of the population, and the two numbers as some draws of the generator give them.\<close>

definition drawn_asset :: "'g random_module \<Rightarrow> (nat \<Rightarrow> int) \<Rightarrow> nat \<Rightarrow> Asset \<Rightarrow> bool" where
  "drawn_asset R today i a \<longleftrightarrow>
     (\<exists>st \<in> set statuses. \<exists>g1 g2.
        a = \<lparr>asset_id = ''asset-'' @ format_03d (i + 1),
             nominal_value = py_round (fst (uniform R 1000 50000 g2)) 2,
             status = st,
             due_date = today i + fst (randint R (- 90) 180 g1)\<rparr>)"


section \<open>The metrics as the specification words them\<close>





section \<open>Rounding and sums\<close>

lemma foldl_plus_sum_list: "foldl (+) a xs = a + sum_list (xs :: real list)"
  by (induction xs arbitrary: a) simp_all

lemma py_sum_sum_list: "py_sum xs = sum_list xs"
  by (simp add: py_sum_def foldl_plus_sum_list)

lemma round_half_even_of_int: "round_half_even (of_int n) = n"
  by (simp add: round_half_even_def)

lemma round_half_even_floor_le: "\<lfloor>x\<rfloor> \<le> round_half_even x"
  by (simp add: round_half_even_def Let_def)

lemma round_half_even_le_ceiling: "round_half_even x \<le> \<lceil>x\<rceil>"
proof (cases "x = of_int \<lfloor>x\<rfloor>")
  case True
  then have "round_half_even x = \<lfloor>x\<rfloor>"
    by (metis round_half_even_of_int)
  then show ?thesis
    by (simp add: floor_le_ceiling)
next
  case False
  then have "\<lceil>x\<rceil> = \<lfloor>x\<rfloor> + 1"
    by (metis ceiling_altdef)
  then show ?thesis
    by (simp add: round_half_even_def Let_def)
qed

lemma round_half_even_mono:
  assumes "x \<le> y"
  shows "round_half_even x \<le> round_half_even y"
proof (cases "\<lfloor>x\<rfloor> = \<lfloor>y\<rfloor>")
  case True
  with assms show ?thesis
    by (auto simp add: round_half_even_def Let_def)
next
  case False
  with assms have "\<lfloor>x\<rfloor> < \<lfloor>y\<rfloor>"
    by (simp add: floor_mono order.strict_iff_order)
  then have "x < of_int \<lfloor>y\<rfloor>"
    by (simp add: floor_less_iff)
  then have "\<lceil>x\<rceil> \<le> \<lfloor>y\<rfloor>"
    by (simp add: ceiling_le_iff)
  with round_half_even_le_ceiling [of x] round_half_even_floor_le [of y]
  show ?thesis by linarith
qed

lemma py_round_mono: "x \<le> y \<Longrightarrow> py_round x n \<le> py_round y n"
  by (simp add: py_round_def divide_le_cancel round_half_even_mono mult_right_mono)

lemma py_round_fixed: "py_round (of_int m / 10 ^ n) n = of_int m / 10 ^ n"
  by (simp add: py_round_def round_half_even_of_int)

lemma py_round_zero: "py_round 0 n = 0"
  using py_round_fixed [of 0 n] by simp


lemma py_round_2_range:
  assumes "1000 \<le> u" and "u \<le> 50000"
  shows "1000 \<le> py_round u 2 \<and> py_round u 2 \<le> 50000"
proof -
  have "py_round 1000 2 = 1000"
    using py_round_fixed [of 100000 2] by simp
  moreover have "py_round 50000 2 = 50000"
    using py_round_fixed [of 5000000 2] by simp
  ultimately show ?thesis
    using py_round_mono [OF assms(1), of 2] py_round_mono [OF assms(2), of 2] by simp
qed

lemma sum_list_filter_le:
  "(\<forall>a \<in> set xs. 0 \<le> f a) \<Longrightarrow> sum_list (map f (filter P xs)) \<le> (sum_list (map f xs) :: real)"
  by (induction xs) (auto simp add: add_increasing)

lemma sum_list_map_nonneg:
  "(\<forall>a \<in> set xs. 0 \<le> f a) \<Longrightarrow> 0 \<le> (sum_list (map f xs) :: real)"
  by (induction xs) simp_all


section \<open>calculate_insights: what it returns\<close>

text \<open>Both divisions are guarded, so the result is always the list of four insights.\<close>

lemma calculate_insights_eq:
  "calculate_insights assets =
     Inr (four_insights
       (py_round (sum_list (map nominal_value assets)) 2)
       (py_round (if assets = [] then 0
                  else real (length (filter (\<lambda>a. status a = Defaulted) assets))
                       / real (length assets)) 4)
       (py_round (sum_list (map nominal_value (filter (\<lambda>a. status a = Active) assets))) 2)
       (py_round (if sum_list (map nominal_value assets) = 0 then 0
                  else sum_list (map nominal_value (filter (\<lambda>a. status a = Paid) assets))
                       / sum_list (map nominal_value assets)) 4))"
  by (simp add: calculate_insights_def four_insights_def truediv_def py_sum_sum_list Let_def)



lemma filter_status_values:
  "map nominal_value (filter (\<lambda>a. status a = s) xs)
     = map snd (filter (\<lambda>p. fst p = s) (zip (map status xs) (map nominal_value xs)))"
  by (induction xs) simp_all

lemma filter_status_length:
  "length (filter (\<lambda>a. status a = s) xs) = length (filter (\<lambda>t. t = s) (map status xs))"
  by (induction xs) simp_all


text \<open>
  C5. For every list of assets the result has exactly four insights, with the ids
  insight-001 to insight-004 and the names total_portfolio_value, default_rate,
  outstanding_debt, collection_rate, in this order.
\<close>

theorem calculate_insights_shape:
  "\<exists>r. calculate_insights assets = Inr r \<and> length r = 4
    \<and> map insight_id r = [''insight-001'', ''insight-002'', ''insight-003'', ''insight-004'']
    \<and> map name r =
        [''total_portfolio_value'', ''default_rate'', ''outstanding_debt'', ''collection_rate'']"
  by (simp add: calculate_insights_eq four_insights_def)

text \<open>
  C6. calculate_insights returns a list on every input, so no division by zero is ever
  raised, and on the empty list the four values are 0.
\<close>

theorem calculate_insights_total:
  "(\<exists>r. calculate_insights assets = Inr r)
   \<and> calculate_insights [] = Inr (four_insights 0 0 0 0)"
  by (simp add: calculate_insights_eq py_round_zero)

text \<open>
  C7. On the three assets A (1000, active), B (2000, defaulted), C (3000, paid), whatever
  their ids and due dates, the values are 6000, 0.3333, 1000 and 0.5.
\<close>

theorem calculate_insights_scenario:
  "calculate_insights
     [\<lparr>asset_id = i1, nominal_value = 1000, status = Active, due_date = d1\<rparr>,
      \<lparr>asset_id = i2, nominal_value = 2000, status = Defaulted, due_date = d2\<rparr>,
      \<lparr>asset_id = i3, nominal_value = 3000, status = Paid, due_date = d3\<rparr>]
   = Inr (four_insights 6000 (3333 / 10000) 1000 (1 / 2))"
  by (simp add: calculate_insights_def four_insights_def py_sum_def truediv_def
      py_round_def round_half_even_def Let_def)




text \<open>
  C9. Two lists of assets whose elements agree, position by position, on nominal_value
  and status give the same insights, whatever their ids and due dates.
\<close>

theorem calculate_insights_noninterference:
  assumes "map nominal_value xs = map nominal_value ys"
    and "map status xs = map status ys"
  shows "calculate_insights xs = calculate_insights ys"
proof -
  have "xs = [] \<longleftrightarrow> ys = []"
    using assms(2) by (metis map_is_Nil_conv)
  moreover have "length xs = length ys"
    using assms(2) by (metis length_map)
  ultimately show ?thesis
    by (simp only: calculate_insights_eq filter_status_values filter_status_length assms)
qed

theorem calculate_insights_noninterference_witness:
  "map nominal_value
     [\<lparr>asset_id = ''asset-001'', nominal_value = 1250, status = Paid, due_date = 739923\<rparr>,
      \<lparr>asset_id = ''asset-002'', nominal_value = 4000, status = Defaulted, due_date = 739845\<rparr>]
   = map nominal_value
     [\<lparr>asset_id = ''x'', nominal_value = 1250, status = Paid, due_date = 1\<rparr>,
      \<lparr>asset_id = ''y'', nominal_value = 4000, status = Defaulted, due_date = 2\<rparr>]
   \<and> map status
     [\<lparr>asset_id = ''asset-001'', nominal_value = 1250, status = Paid, due_date = 739923\<rparr>,
      \<lparr>asset_id = ''asset-002'', nominal_value = 4000, status = Defaulted, due_date = 739845\<rparr>]
   = map status
     [\<lparr>asset_id = ''x'', nominal_value = 1250, status = Paid, due_date = 1\<rparr>,
      \<lparr>asset_id = ''y'', nominal_value = 4000, status = Defaulted, due_date = 2\<rparr>]
   \<and> calculate_insights
     [\<lparr>asset_id = ''asset-001'', nominal_value = 1250, status = Paid, due_date = 739923\<rparr>,
      \<lparr>asset_id = ''asset-002'', nominal_value = 4000, status = Defaulted, due_date = 739845\<rparr>]
   = calculate_insights
     [\<lparr>asset_id = ''x'', nominal_value = 1250, status = Paid, due_date = 1\<rparr>,
      \<lparr>asset_id = ''y'', nominal_value = 4000, status = Defaulted, due_date = 2\<rparr>]"
  using calculate_insights_noninterference
    [of "[\<lparr>asset_id = ''asset-001'', nominal_value = 1250, status = Paid, due_date = 739923\<rparr>,
          \<lparr>asset_id = ''asset-002'', nominal_value = 4000, status = Defaulted, due_date = 739845\<rparr>]"
        "[\<lparr>asset_id = ''x'', nominal_value = 1250, status = Paid, due_date = 1\<rparr>,
          \<lparr>asset_id = ''y'', nominal_value = 4000, status = Defaulted, due_date = 2\<rparr>]"]
  by simp

text \<open>
  C10. When no nominal value is negative, outstanding_debt is not negative and is at most
  total_portfolio_value.
\<close>

theorem calculate_insights_debt_le_total:
  assumes "\<forall>a \<in> set assets. 0 \<le> nominal_value a"
  shows "\<exists>t d od c. calculate_insights assets = Inr (four_insights t d od c)
           \<and> 0 \<le> od \<and> od \<le> t"
proof -
  let ?t = "sum_list (map nominal_value assets)"
  let ?p = "sum_list (map nominal_value (filter (\<lambda>a. status a = Active) assets))"
  have p: "0 \<le> ?p"
    using assms by (intro sum_list_map_nonneg) simp
  have pt: "?p \<le> ?t"
    using assms by (rule sum_list_filter_le)
  have "0 \<le> py_round ?p 2"
    using py_round_mono [OF p, of 2] by (simp only: py_round_zero)
  moreover have "py_round ?p 2 \<le> py_round ?t 2"
    using pt by (rule py_round_mono)
  ultimately show ?thesis
    by (simp only: calculate_insights_eq) blast
qed

theorem calculate_insights_debt_le_total_witness:
  "0 \<le> nominal_value
         \<lparr>asset_id = ''asset-001'', nominal_value = 1000, status = Active, due_date = 739923\<rparr>
   \<and> 0 \<le> nominal_value
         \<lparr>asset_id = ''asset-002'', nominal_value = 3000, status = Paid, due_date = 739930\<rparr>
   \<and> (\<exists>t d od c. calculate_insights
               [\<lparr>asset_id = ''asset-001'', nominal_value = 1000, status = Active, due_date = 739923\<rparr>,
                \<lparr>asset_id = ''asset-002'', nominal_value = 3000, status = Paid, due_date = 739930\<rparr>]
            = Inr (four_insights t d od c)
          \<and> 0 \<le> od \<and> od \<le> t)"
  using calculate_insights_debt_le_total
    [of "[\<lparr>asset_id = ''asset-001'', nominal_value = 1000, status = Active, due_date = 739923\<rparr>,
          \<lparr>asset_id = ''asset-002'', nominal_value = 3000, status = Paid, due_date = 739930\<rparr>]"]
  by simp


section \<open>get_assets: the loop\<close>

text \<open>When \<^verbatim>\<open>choices\<close> returns one element of its population, the loop goes through all
  its indices and appends one asset for each of them.\<close>

lemma get_assets_loop_returns:
  assumes "choices_contract R"
  shows "\<exists>new g'. get_assets_loop R today is acc g = Inr (acc @ new, g')
           \<and> list_all2 (drawn_asset R today) is new"
proof (induction "is" arbitrary: acc g)
  case Nil
  then show ?case by simp
next
  case (Cons i "is")
  obtain drawn g1 where c: "choices R statuses [6 / 10, 2 / 10, 2 / 10] g = (drawn, g1)"
    by (cases "choices R statuses [6 / 10, 2 / 10, 2 / 10] g")
  have "statuses \<noteq> []"
    by (simp add: statuses_def)
  with assms have "\<exists>x \<in> set statuses. fst (choices R statuses [6 / 10, 2 / 10, 2 / 10] g) = [x]"
    unfolding choices_contract_def by blast
  with c obtain st where st: "drawn = [st]" "st \<in> set statuses"
    by auto
  obtain days g2 where r: "randint R (- 90) 180 g1 = (days, g2)"
    by (cases "randint R (- 90) 180 g1")
  obtain u g3 where u: "uniform R 1000 50000 g2 = (u, g3)"
    by (cases "uniform R 1000 50000 g2")
  let ?a = "\<lparr>asset_id = ''asset-'' @ format_03d (i + 1), nominal_value = py_round u 2,
             status = st, due_date = today i + days\<rparr>"
  from Cons.IH [of "acc @ [?a]" g3]
  obtain new g' where new:
      "get_assets_loop R today is (acc @ [?a]) g3 = Inr ((acc @ [?a]) @ new, g')"
      "list_all2 (drawn_asset R today) is new"
    by blast
  have "get_assets_loop R today (i # is) acc g = Inr (acc @ (?a # new), g')"
    using c st r u new(1) by simp
  moreover have "drawn_asset R today i ?a"
    unfolding drawn_asset_def using st(2) r u by (metis fst_conv)
  ultimately show ?case
    using new(2) by blast
qed

lemma get_assets_returns:
  assumes "choices_contract R"
  shows "\<exists>assets g'. get_assets R today g = Inr (assets, g')
           \<and> list_all2 (drawn_asset R today) [0..<20] assets"
  using get_assets_loop_returns [OF assms, of today "[0..<20]" "[]" "seed R 42 g"]
  by (simp add: get_assets_def)

lemma drawn_asset_id:
  "drawn_asset R today i a \<Longrightarrow> asset_id a = ''asset-'' @ format_03d (i + 1)"
  by (auto simp add: drawn_asset_def)

lemma drawn_asset_in_ranges:
  assumes "randint_contract R" and "uniform_contract R" and "drawn_asset R today i a"
  shows "status a \<in> {Active, Defaulted, Paid}
     \<and> 1000 \<le> nominal_value a \<and> nominal_value a \<le> 50000
     \<and> (\<exists>u. nominal_value a = py_round u 2)
     \<and> (\<exists>k. - 90 \<le> k \<and> k \<le> 180 \<and> due_date a = today i + k)"
proof -
  from assms(3) obtain st g1 g2 where st: "st \<in> set statuses"
    and a: "a = \<lparr>asset_id = ''asset-'' @ format_03d (i + 1),
             nominal_value = py_round (fst (uniform R 1000 50000 g2)) 2,
             status = st,
             due_date = today i + fst (randint R (- 90) 180 g1)\<rparr>"
    unfolding drawn_asset_def by blast
  have "(- 90 :: int) \<le> 180"
    by simp
  with assms(1)
  have days: "- 90 \<le> fst (randint R (- 90) 180 g1) \<and> fst (randint R (- 90) 180 g1) \<le> 180"
    unfolding randint_contract_def by blast
  have "(1000 :: real) \<le> 50000"
    by simp
  with assms(2)
  have "1000 \<le> fst (uniform R 1000 50000 g2) \<and> fst (uniform R 1000 50000 g2) \<le> 50000"
    unfolding uniform_contract_def by blast
  then have v: "1000 \<le> py_round (fst (uniform R 1000 50000 g2)) 2
      \<and> py_round (fst (uniform R 1000 50000 g2)) 2 \<le> 50000"
    by (simp add: py_round_2_range)
  from st have "st \<in> {Active, Defaulted, Paid}"
    by (simp add: statuses_def)
  with days v show ?thesis
    unfolding a by auto
qed

lemma asset_ids_20:
  "map (\<lambda>i. ''asset-'' @ format_03d (i + 1)) [0..<20] =
     [''asset-001'', ''asset-002'', ''asset-003'', ''asset-004'', ''asset-005'',
      ''asset-006'', ''asset-007'', ''asset-008'', ''asset-009'', ''asset-010'',
      ''asset-011'', ''asset-012'', ''asset-013'', ''asset-014'', ''asset-015'',
      ''asset-016'', ''asset-017'', ''asset-018'', ''asset-019'', ''asset-020'']"
  by code_simp

text \<open>The sample generator keeps the promises of the module.\<close>

lemma sample_choices: "choices_contract sample_random"
  by (simp add: choices_contract_def sample_random_def)

lemma sample_randint: "randint_contract sample_random"
proof -
  have "a + int g mod (b - a + 1) \<le> b" if "a \<le> b" for a b :: int and g :: nat
    using that pos_mod_bound [of "b - a + 1" "int g"] by simp
  then show ?thesis
    by (simp add: randint_contract_def sample_random_def)
qed

lemma sample_uniform: "uniform_contract sample_random"
proof -
  have "a + (b - a) * (real (g mod 8) / 8) \<le> b" if "a \<le> b" for a b :: real and g :: nat
  proof -
    have "real (g mod 8) / 8 \<le> 1"
      by simp
    with that have "(b - a) * (real (g mod 8) / 8) \<le> (b - a) * 1"
      by (intro mult_left_mono) simp_all
    then show ?thesis by simp
  qed
  then show ?thesis
    by (simp add: uniform_contract_def sample_random_def)
qed

lemma sample_seed: "seed_contract sample_random"
  by (simp add: seed_contract_def sample_random_def)


section \<open>get_assets: the claims\<close>

text \<open>
  C2. With a module random that keeps its promises, get_assets returns a list in which
  every asset has a status among active, defaulted and paid, a nominal_value that lies
  in [1000, 50000] and is a number rounded to 2 decimals, and a due_date that is the
  date of today (as read in the iteration of the asset) plus a number of days in
  [-90, 180].
\<close>

theorem get_assets_ranges:
  assumes "choices_contract R" and "randint_contract R" and "uniform_contract R"
  shows "\<exists>assets g'. get_assets R today g = Inr (assets, g')
     \<and> length assets = 20
     \<and> (\<forall>i < 20. status (assets ! i) \<in> {Active, Defaulted, Paid}
           \<and> 1000 \<le> nominal_value (assets ! i) \<and> nominal_value (assets ! i) \<le> 50000
           \<and> (\<exists>u. nominal_value (assets ! i) = py_round u 2)
           \<and> (\<exists>k. - 90 \<le> k \<and> k \<le> 180 \<and> due_date (assets ! i) = today i + k))"
proof -
  from get_assets_returns [OF assms(1), of today g]
  obtain new g' where new: "get_assets R today g = Inr (new, g')"
      "list_all2 (drawn_asset R today) [0..<20] new"
    by blast
  have len: "length new = 20"
    using new(2) by (auto dest: list_all2_lengthD)
  have "status (new ! i) \<in> {Active, Defaulted, Paid}
      \<and> 1000 \<le> nominal_value (new ! i) \<and> nominal_value (new ! i) \<le> 50000
      \<and> (\<exists>u. nominal_value (new ! i) = py_round u 2)
      \<and> (\<exists>k. - 90 \<le> k \<and> k \<le> 180 \<and> due_date (new ! i) = today i + k)"
    if "i < 20" for i
  proof -
    from that have "drawn_asset R today ([0..<20] ! i) (new ! i)"
      using list_all2_nthD [OF new(2), of i] by simp
    with that have "drawn_asset R today i (new ! i)"
      by simp
    with assms(2,3) show ?thesis
      by (rule drawn_asset_in_ranges)
  qed
  with new(1) len show ?thesis
    by blast
qed

theorem get_assets_ranges_witness:
  "choices_contract sample_random \<and> randint_contract sample_random
   \<and> uniform_contract sample_random
   \<and> (\<exists>assets g'. get_assets sample_random (\<lambda>i. 739923) 5 = Inr (assets, g')
     \<and> length assets = 20
     \<and> (\<forall>i < 20. status (assets ! i) \<in> {Active, Defaulted, Paid}
           \<and> 1000 \<le> nominal_value (assets ! i) \<and> nominal_value (assets ! i) \<le> 50000
           \<and> (\<exists>u. nominal_value (assets ! i) = py_round u 2)
           \<and> (\<exists>k. - 90 \<le> k \<and> k \<le> 180 \<and> due_date (assets ! i) = 739923 + k)))"
  using get_assets_ranges [OF sample_choices sample_randint sample_uniform, of "\<lambda>i. 739923" 5]
    sample_choices sample_randint sample_uniform
  by simp

text \<open>
  C3. With a module random whose choices returns one element of its population,
  get_assets returns exactly 20 assets, and their ids are asset-001 to asset-020 in this
  order, so they are pairwise distinct.
\<close>

theorem get_assets_ids:
  assumes "choices_contract R"
  shows "\<exists>assets g'. get_assets R today g = Inr (assets, g')
     \<and> length assets = 20
     \<and> map asset_id assets =
         [''asset-001'', ''asset-002'', ''asset-003'', ''asset-004'', ''asset-005'',
          ''asset-006'', ''asset-007'', ''asset-008'', ''asset-009'', ''asset-010'',
          ''asset-011'', ''asset-012'', ''asset-013'', ''asset-014'', ''asset-015'',
          ''asset-016'', ''asset-017'', ''asset-018'', ''asset-019'', ''asset-020'']
     \<and> distinct (map asset_id assets)"
proof -
  from get_assets_returns [OF assms, of today g]
  obtain new g' where new: "get_assets R today g = Inr (new, g')"
      "list_all2 (drawn_asset R today) [0..<20] new"
    by blast
  from new(2)
  have "list_all2 (\<lambda>i a. asset_id a = ''asset-'' @ format_03d (i + 1)) [0..<20] new"
    by (rule list_all2_mono) (rule drawn_asset_id)
  then have "map asset_id new = map (\<lambda>i. ''asset-'' @ format_03d (i + 1)) [0..<20]"
    by (induction rule: list_all2_induct) simp_all
  then have ids: "map asset_id new =
         [''asset-001'', ''asset-002'', ''asset-003'', ''asset-004'', ''asset-005'',
          ''asset-006'', ''asset-007'', ''asset-008'', ''asset-009'', ''asset-010'',
          ''asset-011'', ''asset-012'', ''asset-013'', ''asset-014'', ''asset-015'',
          ''asset-016'', ''asset-017'', ''asset-018'', ''asset-019'', ''asset-020'']"
    by (simp only: asset_ids_20)
  have len: "length new = 20"
    using new(2) by (auto dest: list_all2_lengthD)
  have dist: "distinct (map asset_id new)"
    unfolding ids by simp
  show ?thesis
  proof (intro exI conjI)
    show "get_assets R today g = Inr (new, g')"
      by (fact new(1))
    show "length new = 20"
      by (fact len)
    show "map asset_id new =
         [''asset-001'', ''asset-002'', ''asset-003'', ''asset-004'', ''asset-005'',
          ''asset-006'', ''asset-007'', ''asset-008'', ''asset-009'', ''asset-010'',
          ''asset-011'', ''asset-012'', ''asset-013'', ''asset-014'', ''asset-015'',
          ''asset-016'', ''asset-017'', ''asset-018'', ''asset-019'', ''asset-020'']"
      by (fact ids)
    show "distinct (map asset_id new)"
      by (fact dist)
  qed
qed

theorem get_assets_ids_witness:
  "choices_contract sample_random
   \<and> (\<exists>assets g'. get_assets sample_random (\<lambda>i. 739923) 5 = Inr (assets, g')
     \<and> length assets = 20
     \<and> map asset_id assets =
         [''asset-001'', ''asset-002'', ''asset-003'', ''asset-004'', ''asset-005'',
          ''asset-006'', ''asset-007'', ''asset-008'', ''asset-009'', ''asset-010'',
          ''asset-011'', ''asset-012'', ''asset-013'', ''asset-014'', ''asset-015'',
          ''asset-016'', ''asset-017'', ''asset-018'', ''asset-019'', ''asset-020'']
     \<and> distinct (map asset_id assets))"
  using get_assets_ids [OF sample_choices, of "\<lambda>i. 739923" 5] sample_choices
  by simp

text \<open>
  C4. With a module random whose seed replaces the whole state, two calls of get_assets
  under the same dates return the same result and leave the same state, whatever states
  the generator is in when they start; the second state may be the one the first call
  has left.
\<close>

theorem get_assets_deterministic:
  assumes "seed_contract R"
  shows "get_assets R today g = get_assets R today g'"
proof -
  from assms have "seed R 42 g = seed R 42 g'"
    unfolding seed_contract_def by blast
  then show ?thesis
    by (simp add: get_assets_def)
qed

theorem get_assets_deterministic_witness:
  "seed_contract sample_random
   \<and> get_assets sample_random (\<lambda>i. 739923) 5 = get_assets sample_random (\<lambda>i. 739923) 77"
  using get_assets_deterministic [OF sample_seed, of "\<lambda>i. 739923" 5 77] sample_seed
  by simp

end
